theory Spec2Isabelle
  imports Complex_Main "HOL-Library.Sublist" "HOL-Library.AList"
begin

section \<open>The URL router\<close>

text \<open>
  The class \<open>URLRouter\<close> of the main script. A path is the value of
  \<open>window.location.pathname\<close>, a string. The object \<open>this.routes\<close> is an association
  list in insertion order, which is the order \<open>Object.entries\<close> enumerates string keys in;
  its four keys are distinct for every base path, so no entry overwrites another.
  The lookup \<open>this.routes[path]\<close> finds an own property of the object or, for a name
  that every object inherits from \<open>Object.prototype\<close>, the inherited member
  (\<open>property\<close> below). A pathname begins with a slash, so it names no inherited member:
  on pathnames the lookup is \<open>map_of\<close>.
\<close>

record URLRouter =
  basePath :: string
  routes :: "(string \<times> string) list"

text \<open>\<open>String.prototype.includes\<close> and \<open>String.prototype.startsWith\<close>.\<close>

definition str_includes :: "string \<Rightarrow> string \<Rightarrow> bool" where
  "str_includes s needle = sublist needle s"

definition startsWith :: "string \<Rightarrow> string \<Rightarrow> bool" where
  "startsWith s p = prefix p s"

text \<open>
  The constructor, from the pathname the page was loaded at:
  \<^verbatim>\<open>this.basePath = window.location.pathname.includes('/budget-manager-cloud/')
      ? '/budget-manager-cloud' : '';\<close>
\<close>

definition constructor :: "string \<Rightarrow> URLRouter" where
  "constructor pathname =
     (let b = (if str_includes pathname ''/budget-manager-cloud/''
               then ''/budget-manager-cloud'' else '''')
      in \<lparr> basePath = b,
            routes = [(b @ ''/'', ''dashboard''),
                      (b @ ''/banks'', ''banks''),
                      (b @ ''/transactions'', ''transactions''),
                      (b @ ''/advisor'', ''advisor'')] \<rparr>)"

text \<open>Truthiness of a string value that may be \<open>undefined\<close>: the empty string is falsy.\<close>

fun truthy_str :: "string option \<Rightarrow> bool" where
  "truthy_str None = False"
| "truthy_str (Some s) = (s \<noteq> [])"

text \<open>
  The loop of \<open>handleRoute\<close> over \<open>Object.entries(this.routes)\<close>: the first route, in
  insertion order, that the path starts with; \<open>break\<close> ends the loop there.
\<close>

fun first_startsWith :: "(string \<times> string) list \<Rightarrow> string \<Rightarrow> string option" where
  "first_startsWith [] path = None"
| "first_startsWith ((route, tab) # rest) path =
     (if startsWith path route then Some tab else first_startsWith rest path)"

text \<open>
  The value that a property lookup on a plain object of strings yields: a string of the
  object's own, or a member inherited from \<open>Object.prototype\<close>, which is a function
  (the prototype itself for \<open>__proto__\<close>), truthy and not a string.
\<close>

datatype member = Own string | Inherited string

definition Object_prototype :: "string list" where
  "Object_prototype =
     [''constructor'', ''__defineGetter__'', ''__defineSetter__'', ''hasOwnProperty'',
      ''__lookupGetter__'', ''__lookupSetter__'', ''isPrototypeOf'', ''propertyIsEnumerable'',
      ''toString'', ''valueOf'', ''__proto__'', ''toLocaleString'']"

definition property :: "(string \<times> string) list \<Rightarrow> string \<Rightarrow> member option" where
  "property obj key =
     (case map_of obj key of
        Some s \<Rightarrow> Some (Own s)
      | None \<Rightarrow> (if key \<in> set Object_prototype then Some (Inherited key) else None))"

fun truthy_member :: "member option \<Rightarrow> bool" where
  "truthy_member None = False"
| "truthy_member (Some (Own s)) = (s \<noteq> [])"
| "truthy_member (Some (Inherited k)) = True"

text \<open>
  The value of \<open>tabName\<close> that \<open>handleRoute\<close> computes from any string before it
  schedules \<open>showTab\<close>: the result of the lookup, else the result of the loop, else
  \<open>'dashboard'\<close>.
\<close>

definition handleRoute_resolution :: "URLRouter \<Rightarrow> string \<Rightarrow> member" where
  "handleRoute_resolution r path =
     (let tabName = property (routes r) path;
          tabName = (if \<not> truthy_member tabName
                     then map_option Own (first_startsWith (routes r) path)
                     else tabName)
      in if \<not> truthy_member tabName then Own ''dashboard'' else the tabName)"

text \<open>
  The same on a pathname, where the lookup finds own properties only and the view name
  is a string: the exact match, else the result of the loop, else \<open>'dashboard'\<close>
  (\<open>pathname_resolution\<close> below).
\<close>

definition handleRoute_tabName :: "URLRouter \<Rightarrow> string \<Rightarrow> string" where
  "handleRoute_tabName r path =
     (let tabName = map_of (routes r) path;
          tabName = (if \<not> truthy_str tabName then first_startsWith (routes r) path
                     else tabName)
      in if \<not> truthy_str tabName then ''dashboard'' else the tabName)"

text \<open>The object \<open>routeMap\<close> that \<open>navigateToTab\<close> builds on each call.\<close>

definition routeMap :: "URLRouter \<Rightarrow> (string \<times> string) list" where
  "routeMap r =
     [(''dashboard'', basePath r @ ''/''),
      (''banks'', basePath r @ ''/banks''),
      (''transactions'', basePath r @ ''/transactions''),
      (''advisor'', basePath r @ ''/advisor'')]"

text \<open>
  \<open>navigateToTab\<close> on the list of URLs pushed so far (the newest last):
  \<open>history.pushState\<close> is called when the view has a truthy path. A view name is the
  id of a panel of the page, not the name of an inherited property, so the lookup in
  \<open>routeMap\<close> is that of an own property as well.
\<close>

definition navigateToTab :: "URLRouter \<Rightarrow> string \<Rightarrow> string list \<Rightarrow> string list" where
  "navigateToTab r tabName pushed =
     (let path = map_of (routeMap r) tabName
      in if truthy_str path then pushed @ [the path] else pushed)"

text \<open>
  The resolution as the specification words it, for comparison with the code: the exact
  match first, then the longest registered route that is a prefix of the path, then the
  default view.
\<close>

fun longest_prefix_route :: "(string \<times> string) list \<Rightarrow> string \<Rightarrow> (string \<times> string) option" where
  "longest_prefix_route [] path = None"
| "longest_prefix_route ((route, tab) # rest) path =
     (case longest_prefix_route rest path of
        None \<Rightarrow> (if startsWith path route then Some (route, tab) else None)
      | Some (route', tab') \<Rightarrow>
          (if startsWith path route \<and> length route' < length route then Some (route, tab)
           else Some (route', tab')))"

definition spec_resolve :: "URLRouter \<Rightarrow> string \<Rightarrow> string" where
  "spec_resolve r path =
     (case map_of (routes r) path of
        Some tab \<Rightarrow> tab
      | None \<Rightarrow>
          (case longest_prefix_route (routes r) path of
             Some (route, tab) \<Rightarrow> tab
           | None \<Rightarrow> ''dashboard''))"

section \<open>The page and \<open>showTab\<close>\<close>

text \<open>
  The document is the list of its elements in tree order. Of an element the model keeps
  what \<open>showTab\<close> reads and writes: the id (empty when the element has none), the tokens
  of \<open>classList\<close> and the text of the \<open>onclick\<close> attribute (empty when absent).
\<close>

record element =
  el_id :: string
  classList :: "string list"
  onclick :: string

datatype error = TypeError

datatype loader =
    LoadDashboard | LoadBanks | LoadBanksForManagement | LoadAccounts | LoadBanksForSelect
  | LoadTransactions | LoadAccountsForSelect | LoadReports

text \<open>
  The state a navigation event works on: the elements, the global \<open>router\<close> (\<open>None\<close> on a
  page whose script declares none), the URLs given to \<open>history.pushState\<close> so far and the
  data loaders called or scheduled so far, both with the oldest first. The loaders are
  \<open>async\<close> functions: calling one cannot throw into \<open>showTab\<close>.
\<close>

record page =
  elements :: "element list"
  router :: "URLRouter option"
  pushed :: "string list"
  loads :: "loader list"

definition classList_remove :: "string \<Rightarrow> element \<Rightarrow> element" where
  "classList_remove c e = e\<lparr>classList := removeAll c (classList e)\<rparr>"

definition classList_add :: "string \<Rightarrow> element \<Rightarrow> element" where
  "classList_add c e = (if c \<in> set (classList e) then e else e\<lparr>classList := classList e @ [c]\<rparr>)"

definition has_class :: "string \<Rightarrow> element \<Rightarrow> bool" where
  "has_class c e = (c \<in> set (classList e))"

text \<open>The index of the first element that satisfies a test, as a selector finds it.\<close>

fun find_index :: "('a \<Rightarrow> bool) \<Rightarrow> 'a list \<Rightarrow> nat option" where
  "find_index P [] = None"
| "find_index P (x # xs) = (if P x then Some 0 else map_option Suc (find_index P xs))"

text \<open>
  \<open>document.getElementById\<close>: the first element with that id, \<open>null\<close> when there is none;
  an element without an id is never found.
\<close>

definition getElementById :: "element list \<Rightarrow> string \<Rightarrow> nat option" where
  "getElementById els i = (if i = [] then None else find_index (\<lambda>e. el_id e = i) els)"

text \<open>
  \<^verbatim>\<open>document.querySelector(`[onclick*="showTab('${tabName}')"]`)\<close>: the first element
  whose \<open>onclick\<close> attribute contains the text \<open>showTab('tabName')\<close>. The tab name stands
  inside a double-quoted string of the selector, so this reading of the selector is the
  browser's for a name without a double quote, a backslash or a line break
  (\<open>css_plain\<close>); the statements below that pass through the selector assume it.
\<close>

definition css_plain :: "string \<Rightarrow> bool" where
  "css_plain s = (list_all (\<lambda>c. c \<notin> {CHR 0x22, CHR 0x5C, CHR 0x0A, CHR 0x0C, CHR 0x0D}) s)"

definition querySelector_onclick :: "element list \<Rightarrow> string \<Rightarrow> nat option" where
  "querySelector_onclick els tabName =
     find_index (\<lambda>e. str_includes (onclick e) (''showTab('' @ [CHR 0x27] @ tabName @ [CHR 0x27] @ '')'')) els"

text \<open>The two \<open>querySelectorAll(...).forEach\<close> loops that hide every tab.\<close>

definition deactivate_all :: "element list \<Rightarrow> element list" where
  "deactivate_all els =
     (let els = map (\<lambda>tab. if has_class ''tab-content'' tab then classList_remove ''active'' tab else tab) els
      in map (\<lambda>tab. if has_class ''tab'' tab then classList_remove ''active'' tab else tab) els)"

text \<open>The chain of comparisons at the end of \<open>showTab\<close> in the main script.\<close>

definition load_data :: "string \<Rightarrow> loader list" where
  "load_data tabName =
     (if tabName = ''dashboard'' then []
      else if tabName = ''banks'' then [LoadBanksForManagement]
      else if tabName = ''accounts'' then [LoadAccounts]
      else if tabName = ''transactions'' then [LoadTransactions]
      else if tabName = ''reports'' then [LoadReports]
      else [])"

text \<open>
  \<open>showTab\<close> of the main script. The result is the error thrown, if any, and the page
  as the call leaves it. When \<open>getElementById\<close> returns \<open>null\<close>, reading \<open>.classList\<close>
  throws a \<open>TypeError\<close>; the tabs have been deactivated by then.
\<close>

definition showTab :: "string \<Rightarrow> page \<Rightarrow> error option \<times> page" where
  "showTab tabName pg =
     (let els = deactivate_all (elements pg)
      in case getElementById els tabName of
           None \<Rightarrow> (Some TypeError, pg\<lparr>elements := els\<rparr>)
         | Some i \<Rightarrow>
             (let els = els[i := classList_add ''active'' (els ! i)];
                  els = (case querySelector_onclick els tabName of
                           None \<Rightarrow> els
                         | Some j \<Rightarrow> els[j := classList_add ''active'' (els ! j)]);
                  urls = (case router pg of
                            None \<Rightarrow> pushed pg
                          | Some r \<Rightarrow>
                              (if tabName \<noteq> ''dashboard'' then navigateToTab r tabName (pushed pg)
                               else pushed pg))
              in (None, pg\<lparr>elements := els, pushed := urls, loads := loads pg @ load_data tabName\<rparr>)))"

text \<open>
  \<open>handleRoute\<close> on a pathname: the view name is computed, and the callback given to
  \<open>setTimeout\<close> calls \<open>showTab\<close> with it (\<open>showTab\<close> is a function declaration of the
  same script, so the test of its type succeeds). The model is of the event once its
  callback has run.
\<close>

definition handleRoute :: "URLRouter \<Rightarrow> string \<Rightarrow> page \<Rightarrow> error option \<times> page" where
  "handleRoute r path pg = showTab (handleRoute_tabName r path) pg"

text \<open>
  The \<open>popstate\<close> listener that \<open>init\<close> registers: \<open>this.handleRoute(window.location.pathname)\<close>
  on the router of the page. A page without a router has no such listener.
\<close>

definition popstate :: "string \<Rightarrow> page \<Rightarrow> error option \<times> page" where
  "popstate pathname pg =
     (case router pg of None \<Rightarrow> (None, pg) | Some r \<Rightarrow> handleRoute r pathname pg)"

text \<open>
  \<open>showTab\<close> of the earlier script, which has no router and marks \<open>event.target\<close> as
  active. The first argument is the index of the element that is the target of the
  current event, \<open>None\<close> when \<open>event\<close> is undefined.
\<close>

definition load_data_early :: "string \<Rightarrow> loader list" where
  "load_data_early tabName =
     (if tabName = ''dashboard'' then [LoadDashboard]
      else if tabName = ''banks'' then [LoadBanks]
      else if tabName = ''accounts'' then [LoadAccounts, LoadBanksForSelect]
      else if tabName = ''transactions'' then [LoadTransactions, LoadAccountsForSelect]
      else if tabName = ''reports'' then [LoadReports]
      else [])"

definition showTab_early :: "nat option \<Rightarrow> string \<Rightarrow> page \<Rightarrow> error option \<times> page" where
  "showTab_early target tabName pg =
     (let els = deactivate_all (elements pg)
      in case getElementById els tabName of
           None \<Rightarrow> (Some TypeError, pg\<lparr>elements := els\<rparr>)
         | Some i \<Rightarrow>
             (let els = els[i := classList_add ''active'' (els ! i)]
              in case target of
                   None \<Rightarrow> (Some TypeError, pg\<lparr>elements := els\<rparr>)
                 | Some t \<Rightarrow>
                     (None, pg\<lparr>elements := els[t := classList_add ''active'' (els ! t)],
                               loads := loads pg @ load_data_early tabName\<rparr>)))"

text \<open>A page for the examples: two panels, their two buttons, and the router at the root.\<close>

definition example_page :: page where
  "example_page =
     \<lparr> elements =
         [\<lparr>el_id = '''', classList = [''tab'', ''active''], onclick = ''showTab('' @ [CHR 0x27] @ ''dashboard'' @ [CHR 0x27] @ '')''\<rparr>,
          \<lparr>el_id = '''', classList = [''tab''], onclick = ''showTab('' @ [CHR 0x27] @ ''banks'' @ [CHR 0x27] @ '')''\<rparr>,
          \<lparr>el_id = ''dashboard'', classList = [''tab-content'', ''active''], onclick = ''''\<rparr>,
          \<lparr>el_id = ''banks'', classList = [''tab-content''], onclick = ''''\<rparr>],
       router = Some (constructor ''/''),
       pushed = [],
       loads = [] \<rparr>"

section \<open>The rate table and the converter\<close>

text \<open>
  A JavaScript number is \<open>NaN\<close>, an infinity or a finite double. A finite double is
  kept as the real number it denotes, so every operation that yields a number rounds
  its exact result to a double (\<open>double\<close> below). The sign of a zero is not kept: the
  functions modelled here never divide by a zero and print both zeros alike.
\<close>

datatype number = NaN | Num real | Infinity | NegInfinity

fun isNaN :: "number \<Rightarrow> bool" where
  "isNaN NaN = True"
| "isNaN v = False"

text \<open>Truthiness of a property that may be \<open>undefined\<close>: \<open>undefined\<close>, \<open>NaN\<close> and zero are falsy.\<close>

fun truthy :: "number option \<Rightarrow> bool" where
  "truthy None = False"
| "truthy (Some NaN) = False"
| "truthy (Some (Num x)) = (x \<noteq> 0)"
| "truthy (Some Infinity) = True"
| "truthy (Some NegInfinity) = True"

text \<open>The comparison \<open>amount <= 0\<close>, false on \<open>NaN\<close>.\<close>

fun le_zero :: "number \<Rightarrow> bool" where
  "le_zero NaN = False"
| "le_zero (Num x) = (x \<le> 0)"
| "le_zero Infinity = False"
| "le_zero NegInfinity = True"

text \<open>
  Rounding to a double, as IEEE 754 does after every operation: round to nearest, ties
  to the even significand. For a positive \<open>x\<close>, \<open>exponent x\<close> is the \<open>e\<close> with
  \<open>2^e \<le> x < 2^(e+1)\<close>, kept between -1022 (below it the doubles are subnormal, with
  the spacing \<open>2^-1074\<close>) and 1024. The doubles between \<open>2^e\<close> and \<open>2^(e+1)\<close> are the
  multiples of \<open>2^(e-52)\<close>; a result of magnitude \<open>2^1024\<close> or more is an infinity.
\<close>

definition round_even :: "real \<Rightarrow> int" where
  "round_even r =
     (let n = \<lfloor>r\<rfloor>; d = r - of_int n
      in if d < 1 / 2 then n else if 1 / 2 < d then n + 1 else if even n then n else n + 1)"

fun halvings :: "nat \<Rightarrow> real \<Rightarrow> nat" where
  "halvings 0 x = 0"
| "halvings (Suc k) x = (if 2 \<le> x then Suc (halvings k (x / 2)) else 0)"

fun doublings :: "nat \<Rightarrow> real \<Rightarrow> nat" where
  "doublings 0 x = 0"
| "doublings (Suc k) x = (if x < 1 then Suc (doublings k (2 * x)) else 0)"

definition exponent :: "real \<Rightarrow> int" where
  "exponent x = (if 1 \<le> x then int (halvings 1024 x) else - int (doublings 1022 x))"

definition pow2 :: "int \<Rightarrow> real" where
  "pow2 e = (if 0 \<le> e then 2 ^ nat e else 1 / 2 ^ nat (- e))"

definition double :: "real \<Rightarrow> number" where
  "double x =
     (if x = 0 then Num 0
      else
        (let q = pow2 (exponent \<bar>x\<bar> - 52);
             y = of_int (round_even (x / q)) * q
         in if pow2 1024 \<le> \<bar>y\<bar> then (if 0 < x then Infinity else NegInfinity) else Num y))"

text \<open>
  The operators \<open>/\<close> and \<open>*\<close> on numbers. Every division of the converter is by a
  truthy rate; in a division by zero the zero is taken as positive.
\<close>

fun js_div :: "number \<Rightarrow> number \<Rightarrow> number" where
  "js_div (Num a) (Num b) =
     (if b = 0 then (if a = 0 then NaN else if 0 < a then Infinity else NegInfinity)
      else double (a / b))"
| "js_div (Num a) Infinity = Num 0"
| "js_div (Num a) NegInfinity = Num 0"
| "js_div Infinity (Num b) = (if 0 \<le> b then Infinity else NegInfinity)"
| "js_div NegInfinity (Num b) = (if 0 \<le> b then NegInfinity else Infinity)"
| "js_div a b = NaN"

fun js_mul :: "number \<Rightarrow> number \<Rightarrow> number" where
  "js_mul (Num a) (Num b) = double (a * b)"
| "js_mul (Num a) Infinity = (if a = 0 then NaN else if 0 < a then Infinity else NegInfinity)"
| "js_mul (Num a) NegInfinity = (if a = 0 then NaN else if 0 < a then NegInfinity else Infinity)"
| "js_mul Infinity (Num b) = (if b = 0 then NaN else if 0 < b then Infinity else NegInfinity)"
| "js_mul NegInfinity (Num b) = (if b = 0 then NaN else if 0 < b then NegInfinity else Infinity)"
| "js_mul Infinity Infinity = Infinity"
| "js_mul Infinity NegInfinity = NegInfinity"
| "js_mul NegInfinity Infinity = NegInfinity"
| "js_mul NegInfinity NegInfinity = Infinity"
| "js_mul a b = NaN"


definition digit_char :: "nat \<Rightarrow> char" where
  "digit_char d = ''0123456789'' ! d"

fun decimal :: "nat \<Rightarrow> string" where
  "decimal n = (if n < 10 then [digit_char n] else decimal (n div 10) @ [digit_char (n mod 10)])"

declare decimal.simps [simp del]

fun toFixed :: "nat \<Rightarrow> number \<Rightarrow> string" where
  "toFixed f NaN = ''NaN''"
| "toFixed f Infinity = ''Infinity''"
| "toFixed f NegInfinity = ''-Infinity''"
| "toFixed f (Num x) =
     (let s = (if x < 0 then ''-'' else '''');
          n = nat \<lfloor>\<bar>x\<bar> * 10 ^ f + 1 / 2\<rfloor>;
          m = decimal n;
          m = (if length m \<le> f then replicate (f + 1 - length m) CHR ''0'' @ m else m);
          k = length m
      in s @ (if f = 0 then m else take (k - f) m @ ''.'' @ drop (k - f) m))"

text \<open>
  The global \<open>customRates\<close>: an object, kept as an association list in insertion order.
  Assigning a property is \<open>AList.update\<close>, reading one is \<open>map_of\<close>. Currency codes are
  the values of the page's select elements, none of them the name of a property that
  objects inherit. The decimal literals of the initial table stand for the doubles
  nearest to them; no statement below that uses the initial table computes with its
  rates.
\<close>

type_synonym rates = "(string \<times> number) list"

definition customRates :: rates where
  "customRates =
     [(''USD'', Num 1), (''CAD'', Num 1.35), (''EUR'', Num 0.85), (''UAH'', Num 41), (''RUB'', Num 83)]"

text \<open>
  What \<open>loadExchangeRates\<close> receives: \<open>fetch\<close> rejects, or the status is not ok, or the
  body is not JSON, or it is JSON whose \<open>rates\<close> member is missing or falsy (\<open>None\<close>;
  also a body \<open>null\<close>, where reading the member throws), or it carries an object
  \<open>rates\<close>, whose members are numbers.
\<close>

datatype response = Rejected | Not_ok | Not_json | Json "rates option"

text \<open>
  \<open>loadExchangeRates\<close> of the main script, on the table. Each of the first four cases
  throws inside \<open>try\<close> before any assignment, and \<open>catch\<close> only logs and redraws.
\<close>

definition loadExchangeRates :: "response \<Rightarrow> rates \<Rightarrow> rates" where
  "loadExchangeRates resp cr =
     (case resp of
        Rejected \<Rightarrow> cr
      | Not_ok \<Rightarrow> cr
      | Not_json \<Rightarrow> cr
      | Json None \<Rightarrow> cr
      | Json (Some rs) \<Rightarrow>
          (let cr = AList.update ''USD'' (Num 1) cr;
               cr = (if truthy (map_of rs ''CAD'') then AList.update ''CAD'' (the (map_of rs ''CAD'')) cr else cr);
               cr = (if truthy (map_of rs ''EUR'') then AList.update ''EUR'' (the (map_of rs ''EUR'')) cr else cr);
               cr = (if truthy (map_of rs ''UAH'') then AList.update ''UAH'' (the (map_of rs ''UAH'')) cr else cr);
               cr = (if truthy (map_of rs ''RUB'') then AList.update ''RUB'' (the (map_of rs ''RUB'')) cr else cr)
           in cr))"

text \<open>
  \<open>updateCustomRate\<close>; the argument \<open>rate\<close> is \<open>parseFloat(value)\<close>, which is \<open>NaN\<close>
  when the text does not begin with a number.
\<close>

definition updateCustomRate :: "string \<Rightarrow> string \<Rightarrow> number \<Rightarrow> rates \<Rightarrow> rates" where
  "updateCustomRate fromCurrency toCurrency rate cr =
     (if isNaN rate then cr
      else if fromCurrency = ''CAD'' \<and> toCurrency = ''USD'' then AList.update ''CAD'' rate cr
      else if fromCurrency = ''USD'' \<and> toCurrency = ''EUR'' then AList.update ''EUR'' rate cr
      else if fromCurrency = ''USD'' \<and> toCurrency = ''UAH'' then AList.update ''UAH'' rate cr
      else if fromCurrency = ''USD'' \<and> toCurrency = ''RUB'' then AList.update ''RUB'' rate cr
      else cr)"

text \<open>
  The texts the converter writes: three fixed messages, \<open>N/A\<close>, a currency symbol
  followed by a number with two decimals, or a bare number.
\<close>

datatype symbol = Hryvnia | Euro | Dollar

datatype textContent =
    Enter_valid_amount | Rate_not_found | Conversion_error | Not_available
  | Money symbol string | Plain string

definition getCurrencySymbol :: "string \<Rightarrow> symbol" where
  "getCurrencySymbol currency =
     (if currency = ''UAH'' then Hryvnia else if currency = ''EUR'' then Euro else Dollar)"

text \<open>
  The fields of the converter as a call finds them: \<open>Missing\<close> when one of the four
  elements is not in the document, else \<open>parseFloat\<close> of the amount field and the values
  of the two select elements.
\<close>

datatype converter = Missing | Converter number string string

text \<open>
  \<open>convertCurrencyAmount\<close> of the main script: the text written to the result element,
  \<open>None\<close> when the function returns without writing.
\<close>

fun convertCurrencyAmount :: "rates \<Rightarrow> converter \<Rightarrow> textContent option" where
  "convertCurrencyAmount cr Missing = None"
| "convertCurrencyAmount cr (Converter amount fromCurrency toCurrency) =
     (if isNaN amount \<or> le_zero amount then Some Enter_valid_amount
      else if fromCurrency = toCurrency
        then Some (Money (getCurrencySymbol toCurrency) (toFixed 2 amount))
      else if \<not> truthy (map_of cr fromCurrency) \<or> \<not> truthy (map_of cr toCurrency)
        then Some Rate_not_found
      else
        (let usdAmount = js_div amount (the (map_of cr fromCurrency));
             convertedAmount = js_mul usdAmount (the (map_of cr toCurrency))
         in if isNaN convertedAmount then Some Conversion_error
            else Some (Money (getCurrencySymbol toCurrency) (toFixed 2 convertedAmount))))"

text \<open>
  \<open>convertCurrencyAmount\<close> of \<open>static/plaid_app.js\<close>: the amount is
  \<open>parseFloat(...) || 0\<close>, the symbol is always the dollar sign, and the product is
  formed before the division.
\<close>

fun convertCurrencyAmount_plaid :: "rates \<Rightarrow> converter \<Rightarrow> textContent option" where
  "convertCurrencyAmount_plaid cr Missing = None"
| "convertCurrencyAmount_plaid cr (Converter parsed from to) =
     (let amount = (if truthy (Some parsed) then parsed else Num 0)
      in if from = to then Some (Money Dollar (toFixed 2 amount))
         else if truthy (map_of cr from) \<and> truthy (map_of cr to)
           then Some (Money Dollar
                  (toFixed 2 (js_div (js_mul amount (the (map_of cr to))) (the (map_of cr from)))))
         else Some Rate_not_found)"

text \<open>
  \<open>updateCurrencyPair\<close> of the main script, on the values of the two select elements of
  a pair: the text written to the rate element.
\<close>

datatype pair = Pair_missing | Pair string string

fun updateCurrencyPair :: "rates \<Rightarrow> pair \<Rightarrow> textContent option" where
  "updateCurrencyPair cr Pair_missing = None"
| "updateCurrencyPair cr (Pair fromCurrency toCurrency) =
     (if fromCurrency = toCurrency then Some (Plain ''1.0000'')
      else if \<not> truthy (map_of cr fromCurrency) \<or> \<not> truthy (map_of cr toCurrency)
        then Some Not_available
      else
        (let usdAmount = js_div (Num 1) (the (map_of cr fromCurrency));
             convertedAmount = js_mul usdAmount (the (map_of cr toCurrency))
         in if isNaN convertedAmount then Some Not_available
            else Some (Plain (toFixed 4 convertedAmount))))"

text \<open>
  The invariant of the rate table as the specification words it: every stored rate is
  strictly positive, and the rate of the base currency is exactly 1.
\<close>

fun positive :: "number \<Rightarrow> bool" where
  "positive NaN = False"
| "positive (Num x) = (0 < x)"
| "positive Infinity = True"
| "positive NegInfinity = False"

definition spec_rates_invariant :: "rates \<Rightarrow> bool" where
  "spec_rates_invariant cr = (list_all (\<lambda>(c, x). positive x) cr \<and> map_of cr ''USD'' = Some (Num 1))"

text \<open>The two parts of it that the code keeps: no stored rate is \<open>NaN\<close>, and the dollar is 1.\<close>

definition rates_are_numbers :: "rates \<Rightarrow> bool" where
  "rates_are_numbers cr = list_all (\<lambda>(c, x). \<not> isNaN x) cr"

definition usd_is_one :: "rates \<Rightarrow> bool" where
  "usd_is_one cr = (map_of cr ''USD'' = Some (Num 1))"

section \<open>Routes and views\<close>

lemma routes_constructor:
  "routes (constructor pathname) =
     [(basePath (constructor pathname) @ ''/'', ''dashboard''),
      (basePath (constructor pathname) @ ''/banks'', ''banks''),
      (basePath (constructor pathname) @ ''/transactions'', ''transactions''),
      (basePath (constructor pathname) @ ''/advisor'', ''advisor'')]"
  by (simp add: constructor_def Let_def)

lemma exact_match:
  assumes "(p, v) \<in> set (routes (constructor pathname))"
  shows "map_of (routes (constructor pathname)) p = Some v"
  using assms unfolding routes_constructor by auto

lemma registered_view_nonempty:
  assumes "(p, v) \<in> set (routes (constructor pathname))"
  shows "v \<noteq> []"
  using assms unfolding routes_constructor by auto

lemma registered_path_nonempty:
  assumes "(p, v) \<in> set (routes (constructor pathname))"
  shows "p \<noteq> []"
  using assms unfolding routes_constructor by auto

lemma routeMap_inverse:
  assumes "(p, v) \<in> set (routes (constructor pathname))"
  shows "map_of (routeMap (constructor pathname)) v = Some p"
  using assms unfolding routes_constructor routeMap_def by auto

text \<open>
  C9. For every route registered by the constructor, whatever the pathname at startup,
  the view that \<open>handleRoute\<close> resolves the route's path to is mapped back to that path
  by the route map of \<open>navigateToTab\<close>.
\<close>

theorem route_round_trip:
  assumes "(p, v) \<in> set (routes (constructor pathname))"
  shows "handleRoute_tabName (constructor pathname) p = v
         \<and> map_of (routeMap (constructor pathname)) v = Some p"
proof -
  have ex: "map_of (routes (constructor pathname)) p = Some v"
    using assms by (rule exact_match)
  have ne: "v \<noteq> []"
    using assms by (rule registered_view_nonempty)
  have fwd: "handleRoute_tabName (constructor pathname) p = v"
    using ex ne by (simp add: handleRoute_tabName_def)
  from fwd routeMap_inverse [OF assms] show ?thesis ..
qed

theorem route_round_trip_witness:
  "(''/banks'', ''banks'') \<in> set (routes (constructor ''/''))
   \<and> handleRoute_tabName (constructor ''/'') ''/banks'' = ''banks''
   \<and> map_of (routeMap (constructor ''/'')) ''banks'' = Some ''/banks''"
proof -
  have h: "(''/banks'', ''banks'') \<in> set (routes (constructor ''/''))"
    by (simp add: constructor_def str_includes_def sublist_code prefix_code)
  from h route_round_trip [OF h] show ?thesis by simp
qed

subsection \<open>What the prefix loop can find\<close>

lemma map_of_routes_cases:
  "map_of (routes (constructor pathname)) path = None
   \<or> map_of (routes (constructor pathname)) path = Some ''dashboard''
   \<or> map_of (routes (constructor pathname)) path = Some ''banks''
   \<or> map_of (routes (constructor pathname)) path = Some ''transactions''
   \<or> map_of (routes (constructor pathname)) path = Some ''advisor''"
  unfolding routes_constructor by simp

lemma prefix_root_of_longer:
  assumes "prefix (b @ CHR ''/'' # rest) path"
  shows "prefix (b @ ''/'') path"
proof -
  have "prefix (b @ ''/'') (b @ CHR ''/'' # rest)" by simp
  from this assms show ?thesis by (rule prefix_order.trans)
qed

text \<open>
  The route of the dashboard, the base path followed by a slash, is registered first and
  is a prefix of the three other routes: the loop stops at it whenever any route is a
  prefix of the path, so it finds the dashboard or nothing.
\<close>

lemma first_startsWith_routes:
  "first_startsWith (routes (constructor pathname)) path =
     (if startsWith path (basePath (constructor pathname) @ ''/'') then Some ''dashboard'' else None)"
proof (cases "prefix (basePath (constructor pathname) @ ''/'') path")
  case True
  then show ?thesis unfolding routes_constructor by (simp add: startsWith_def)
next
  case False
  then have "\<not> prefix (basePath (constructor pathname) @ CHR ''/'' # rest) path" for rest
    using prefix_root_of_longer by blast
  with False show ?thesis unfolding routes_constructor by (simp add: startsWith_def)
qed

text \<open>
  Hence \<open>handleRoute\<close> resolves a pathname to the view of its exact match and every
  other pathname to \<open>'dashboard'\<close>.
\<close>

lemma handleRoute_tabName_exact_or_dashboard:
  "handleRoute_tabName (constructor pathname) path =
     (case map_of (routes (constructor pathname)) path of
        Some tab \<Rightarrow> tab
      | None \<Rightarrow> ''dashboard'')"
  using map_of_routes_cases [of pathname path]
  by (auto simp add: handleRoute_tabName_def first_startsWith_routes)

text \<open>
  On every string that begins with a slash, as every pathname does, the resolution is
  the string that \<open>handleRoute_tabName\<close> gives.
\<close>

lemma property_pathname:
  "property obj (CHR ''/'' # rest) = map_option Own (map_of obj (CHR ''/'' # rest))"
  by (simp add: property_def Object_prototype_def split: option.split)

lemma truthy_member_Own: "truthy_member (map_option Own v) = truthy_str v"
  by (cases v) simp_all

lemma pathname_resolution:
  "handleRoute_resolution r (CHR ''/'' # rest) = Own (handleRoute_tabName r (CHR ''/'' # rest))"
proof -
  let ?p = "CHR ''/'' # rest"
  show ?thesis
  proof (cases "truthy_str (map_of (routes r) ?p)")
    case True
    then obtain s where "map_of (routes r) ?p = Some s" by (cases "map_of (routes r) ?p") auto
    with True show ?thesis
      by (simp add: handleRoute_resolution_def handleRoute_tabName_def property_pathname)
  next
    case False
    note exact = this
    show ?thesis
    proof (cases "truthy_str (first_startsWith (routes r) ?p)")
      case True
      then obtain s where "first_startsWith (routes r) ?p = Some s"
        by (cases "first_startsWith (routes r) ?p") auto
      with exact True show ?thesis
        by (simp add: handleRoute_resolution_def handleRoute_tabName_def property_pathname
            truthy_member_Own)
    next
      case False
      with exact show ?thesis
        by (simp add: handleRoute_resolution_def handleRoute_tabName_def property_pathname
            truthy_member_Own)
    qed
  qed
qed

text \<open>
  A string that names an inherited member is no pathname; on it the lookup is truthy
  and the default view is not reached.
\<close>

lemma inherited_member_resolution:
  "handleRoute_resolution (constructor ''/'') ''constructor'' = Inherited ''constructor''"
  by (simp add: handleRoute_resolution_def property_def Object_prototype_def constructor_def
      str_includes_def sublist_code prefix_code)

text \<open>
  C3. The claim names the longest registered prefix; the code takes the first registered
  route, in insertion order, that is a prefix of the path. At the pathname \<open>/banks/1\<close>,
  with the router at the domain root, the code resolves to the dashboard, because the
  loop stops at the route \<open>/\<close>, which is registered first. The longest registered prefix
  of that path is \<open>/banks\<close>, so the resolution the specification words gives the view
  \<open>banks\<close>.
\<close>

theorem handleRoute_first_prefix_not_longest:
  "handleRoute_resolution (constructor ''/'') ''/banks/1'' = Own ''dashboard''
   \<and> handleRoute_tabName (constructor ''/'') ''/banks/1'' = ''dashboard''
   \<and> spec_resolve (constructor ''/'') ''/banks/1'' = ''banks''"
  by (simp add: handleRoute_resolution_def property_def Object_prototype_def
      handleRoute_tabName_def spec_resolve_def constructor_def str_includes_def
      startsWith_def sublist_code prefix_code)

subsection \<open>The base path\<close>

text \<open>
  C8, as stated, at the deployment under \<open>/app\<close>: the page loaded at \<open>/app/banks\<close> gets
  the empty base path, not \<open>/app\<close>, and its own path resolves to the dashboard.
\<close>

theorem base_path_app_counterexample:
  "basePath (constructor ''/app/banks'') \<noteq> ''/app''
   \<and> handleRoute_tabName (constructor ''/app/banks'') ''/app/banks'' \<noteq> ''banks''"
  by (simp add: handleRoute_tabName_def constructor_def str_includes_def
      startsWith_def sublist_code prefix_code)

text \<open>
  C8, amended. The base path is chosen at startup between two fixed values: it is
  \<open>/budget-manager-cloud\<close> when the current path contains \<open>/budget-manager-cloud/\<close> and
  empty otherwise. With the base path so chosen, the base path followed by \<open>/\<close>,
  \<open>/banks\<close>, \<open>/transactions\<close> and \<open>/advisor\<close> resolves to the four views. Under any other
  subpath the base path is empty; there \<open>/banks\<close> resolves to \<open>banks\<close> and
  \<open>/app/unknown\<close> to the dashboard.
\<close>

theorem base_path_detection:
  "(str_includes pathname ''/budget-manager-cloud/''
      \<longrightarrow> basePath (constructor pathname) = ''/budget-manager-cloud'')
   \<and> (\<not> str_includes pathname ''/budget-manager-cloud/''
      \<longrightarrow> basePath (constructor pathname) = ''''
        \<and> handleRoute_tabName (constructor pathname) ''/banks'' = ''banks''
        \<and> handleRoute_tabName (constructor pathname) ''/app/unknown'' = ''dashboard'')
   \<and> handleRoute_tabName (constructor pathname) (basePath (constructor pathname) @ ''/'') = ''dashboard''
   \<and> handleRoute_tabName (constructor pathname) (basePath (constructor pathname) @ ''/banks'') = ''banks''
   \<and> handleRoute_tabName (constructor pathname) (basePath (constructor pathname) @ ''/transactions'')
       = ''transactions''
   \<and> handleRoute_tabName (constructor pathname) (basePath (constructor pathname) @ ''/advisor'') = ''advisor''"
proof -
  let ?r = "constructor pathname"
  have root: "\<not> str_includes pathname ''/budget-manager-cloud/'' \<Longrightarrow> basePath ?r = ''''"
    by (simp add: constructor_def)
  have sub: "str_includes pathname ''/budget-manager-cloud/''
      \<Longrightarrow> basePath ?r = ''/budget-manager-cloud''"
    by (simp add: constructor_def)
  have banks0: "basePath ?r = '''' \<Longrightarrow> handleRoute_tabName ?r ''/banks'' = ''banks''"
    unfolding handleRoute_tabName_exact_or_dashboard routes_constructor by simp
  have unknown0: "basePath ?r = '''' \<Longrightarrow> handleRoute_tabName ?r ''/app/unknown'' = ''dashboard''"
    unfolding handleRoute_tabName_exact_or_dashboard routes_constructor by simp
  have four: "handleRoute_tabName ?r (basePath ?r @ ''/'') = ''dashboard''"
    "handleRoute_tabName ?r (basePath ?r @ ''/banks'') = ''banks''"
    "handleRoute_tabName ?r (basePath ?r @ ''/transactions'') = ''transactions''"
    "handleRoute_tabName ?r (basePath ?r @ ''/advisor'') = ''advisor''"
    unfolding handleRoute_tabName_exact_or_dashboard routes_constructor by simp_all
  from root sub banks0 unknown0 four show ?thesis by blast
qed

theorem base_path_detection_witness:
  "str_includes ''/budget-manager-cloud/banks'' ''/budget-manager-cloud/''
   \<and> basePath (constructor ''/budget-manager-cloud/banks'') = ''/budget-manager-cloud''
   \<and> handleRoute_tabName (constructor ''/budget-manager-cloud/banks'') ''/budget-manager-cloud/banks''
       = ''banks''
   \<and> \<not> str_includes ''/app/'' ''/budget-manager-cloud/''
   \<and> basePath (constructor ''/app/'') = ''''
   \<and> handleRoute_tabName (constructor ''/app/'') ''/banks'' = ''banks''
   \<and> handleRoute_tabName (constructor ''/app/'') ''/app/unknown'' = ''dashboard''"
proof -
  have h1: "str_includes ''/budget-manager-cloud/banks'' ''/budget-manager-cloud/''"
    by (simp add: str_includes_def sublist_code prefix_code)
  have h2: "\<not> str_includes ''/app/'' ''/budget-manager-cloud/''"
    by (simp add: str_includes_def sublist_code prefix_code)
  note sub = base_path_detection [of "''/budget-manager-cloud/banks''"]
  note app = base_path_detection [of "''/app/''"]
  from h1 sub have b: "basePath (constructor ''/budget-manager-cloud/banks'') = ''/budget-manager-cloud''"
    by blast
  from sub have "handleRoute_tabName (constructor ''/budget-manager-cloud/banks'')
      (basePath (constructor ''/budget-manager-cloud/banks'') @ ''/banks'') = ''banks''"
    by blast
  then have v: "handleRoute_tabName (constructor ''/budget-manager-cloud/banks'')
      ''/budget-manager-cloud/banks'' = ''banks''"
    unfolding b by simp
  from h2 app have a: "basePath (constructor ''/app/'') = ''''
      \<and> handleRoute_tabName (constructor ''/app/'') ''/banks'' = ''banks''
      \<and> handleRoute_tabName (constructor ''/app/'') ''/app/unknown'' = ''dashboard''"
    by blast
  from h1 b v h2 a show ?thesis by blast
qed

section \<open>Activating a view\<close>

lemma find_index_map: "find_index P (map f xs) = find_index (\<lambda>x. P (f x)) xs"
  by (induction xs) auto

lemma find_index_Some:
  assumes "find_index P xs = Some i"
  shows "i < length xs \<and> P (xs ! i)"
  using assms
proof (induction xs arbitrary: i)
  case Nil
  then show ?case by simp
next
  case (Cons x xs)
  then show ?case by (auto split: if_splits)
qed

lemma el_id_classList_remove [simp]: "el_id (classList_remove c e) = el_id e"
  by (simp add: classList_remove_def)

lemma el_id_classList_add [simp]: "el_id (classList_add c e) = el_id e"
  by (simp add: classList_add_def)

lemma has_class_add [simp]: "has_class c (classList_add c e)"
  by (simp add: has_class_def classList_add_def)

text \<open>Hiding the tabs changes no id, so it changes no result of \<open>getElementById\<close>.\<close>

lemma getElementById_deactivate_all [simp]:
  "getElementById (deactivate_all els) t = getElementById els t"
  by (simp add: getElementById_def deactivate_all_def find_index_map o_def)

lemma length_deactivate_all [simp]: "length (deactivate_all els) = length els"
  by (simp add: deactivate_all_def)

lemma getElementById_Some:
  assumes "getElementById els t = Some i"
  shows "i < length els \<and> el_id (els ! i) = t"
  using assms find_index_Some [of "\<lambda>e. el_id e = t" els i]
  by (simp add: getElementById_def split: if_splits)

lemma panels_hidden:
  "list_all (\<lambda>e. \<not> (has_class ''tab-content'' e \<and> has_class ''active'' e)) (deactivate_all els)"
  by (induction els) (auto simp add: deactivate_all_def has_class_def classList_remove_def)

lemma showTab_None:
  assumes "getElementById (elements pg) tabName = None"
  shows "showTab tabName pg = (Some TypeError, pg\<lparr>elements := deactivate_all (elements pg)\<rparr>)"
  using assms by (simp add: showTab_def)

lemma showTab_early_None:
  assumes "getElementById (elements pg) tabName = None"
  shows "showTab_early target tabName pg = (Some TypeError, pg\<lparr>elements := deactivate_all (elements pg)\<rparr>)"
  using assms by (simp add: showTab_early_def)

lemma showTab_Some:
  assumes "getElementById (elements pg) tabName = Some i"
  shows "fst (showTab tabName pg) = None
    \<and> has_class ''active'' (elements (snd (showTab tabName pg)) ! i)
    \<and> el_id (elements (snd (showTab tabName pg)) ! i) = tabName"
proof -
  let ?els = "deactivate_all (elements pg)"
  let ?els1 = "?els[i := classList_add ''active'' (?els ! i)]"
  from assms have g: "getElementById ?els tabName = Some i" by simp
  from getElementById_Some [OF g] have i: "i < length ?els" and idt: "el_id (?els ! i) = tabName"
    by simp_all
  have a1: "has_class ''active'' (?els1 ! i)" and id1: "el_id (?els1 ! i) = tabName"
    using i idt by simp_all
  have a2: "has_class ''active'' (?els1[j := classList_add ''active'' (?els1 ! j)] ! i)"
    and id2: "el_id (?els1[j := classList_add ''active'' (?els1 ! j)] ! i) = tabName" for j
    using a1 id1 i by (cases "j = i"; simp)+
  show ?thesis
    using g a1 id1 a2 id2
    by (simp add: showTab_def Let_def split: option.split)
qed

text \<open>
  C4, as stated, on the example page: it has no element with the id \<open>settings\<close>, and
  \<open>showTab('settings')\<close> throws a \<open>TypeError\<close>; the panel of the default view, the
  element at index 2, is not active afterwards.
\<close>

theorem showTab_unknown_view_counterexample:
  "getElementById (elements example_page) ''settings'' = None
   \<and> fst (showTab ''settings'' example_page) = Some TypeError
   \<and> getElementById (elements example_page) ''dashboard'' = Some 2
   \<and> \<not> has_class ''active'' (elements (snd (showTab ''settings'' example_page)) ! 2)"
  by (simp add: showTab_def example_page_def getElementById_def deactivate_all_def has_class_def
      classList_remove_def)

text \<open>
  C4, amended. \<open>showTab\<close> does not check its argument against a set of views and has no
  fallback. When the document has no element with the given id, both versions of
  \<open>showTab\<close> throw a \<open>TypeError\<close>, and the main one leaves every panel hidden. When the
  document has such an element (and the name is free of the characters that end the
  quoted string of the selector), \<open>showTab\<close> returns normally with that element active.
\<close>

theorem showTab_throws_iff_no_element:
  "(getElementById (elements pg) tabName = None
      \<longrightarrow> fst (showTab tabName pg) = Some TypeError
        \<and> fst (showTab_early target tabName pg) = Some TypeError
        \<and> list_all (\<lambda>e. \<not> (has_class ''tab-content'' e \<and> has_class ''active'' e))
              (elements (snd (showTab tabName pg))))
   \<and> (getElementById (elements pg) tabName = Some i \<and> css_plain tabName
      \<longrightarrow> fst (showTab tabName pg) = None
        \<and> el_id (elements (snd (showTab tabName pg)) ! i) = tabName
        \<and> has_class ''active'' (elements (snd (showTab tabName pg)) ! i))"
proof -
  have missing: "fst (showTab tabName pg) = Some TypeError
        \<and> fst (showTab_early target tabName pg) = Some TypeError
        \<and> list_all (\<lambda>e. \<not> (has_class ''tab-content'' e \<and> has_class ''active'' e))
              (elements (snd (showTab tabName pg)))"
    if "getElementById (elements pg) tabName = None"
    unfolding showTab_None [OF that] showTab_early_None [OF that]
    using panels_hidden [of "elements pg"] by simp
  from missing showTab_Some [of pg tabName i] show ?thesis by blast
qed

theorem showTab_throws_iff_no_element_witness:
  "getElementById (elements example_page) ''reports'' = None
   \<and> fst (showTab ''reports'' example_page) = Some TypeError
   \<and> getElementById (elements example_page) ''banks'' = Some 3 \<and> css_plain ''banks''
   \<and> fst (showTab ''banks'' example_page) = None
   \<and> has_class ''active'' (elements (snd (showTab ''banks'' example_page)) ! 3)"
proof -
  have n: "getElementById (elements example_page) ''reports'' = None"
    by (simp add: example_page_def getElementById_def)
  have s: "getElementById (elements example_page) ''banks'' = Some 3 \<and> css_plain ''banks''"
    by (simp add: example_page_def getElementById_def css_plain_def)
  from n s showTab_throws_iff_no_element [of example_page "''reports''" None 0]
    showTab_throws_iff_no_element [of example_page "''banks''" None 3]
  show ?thesis by blast
qed

subsection \<open>Back and forward\<close>

lemma resolved_view_path:
  assumes "handleRoute_tabName (constructor p0) path \<noteq> ''dashboard''"
  shows "map_of (routeMap (constructor p0)) (handleRoute_tabName (constructor p0) path) = Some path
         \<and> path \<noteq> []"
proof -
  let ?r = "constructor p0"
  from assms obtain v where v: "map_of (routes ?r) path = Some v"
    by (cases "map_of (routes ?r) path") (simp_all add: handleRoute_tabName_exact_or_dashboard)
  then have tab: "handleRoute_tabName ?r path = v"
    by (simp add: handleRoute_tabName_exact_or_dashboard)
  from v have mem: "(path, v) \<in> set (routes ?r)" by (rule map_of_SomeD)
  from routeMap_inverse [OF mem] registered_path_nonempty [OF mem] tab show ?thesis by simp
qed

lemma navigateToTab_resolved:
  assumes "handleRoute_tabName (constructor p0) path \<noteq> ''dashboard''"
  shows "navigateToTab (constructor p0) (handleRoute_tabName (constructor p0) path) urls = urls @ [path]"
  using resolved_view_path [OF assms] by (simp add: navigateToTab_def)

text \<open>
  C2, as stated, on the example page: the \<open>popstate\<close> event that arrives at \<open>/banks\<close>
  calls \<open>history.pushState\<close> with \<open>/banks\<close>.
\<close>

theorem popstate_pushes_counterexample:
  "pushed example_page = []
   \<and> pushed (snd (popstate ''/banks'' example_page)) = [''/banks'']"
  by (simp add: popstate_def handleRoute_def handleRoute_tabName_def showTab_def example_page_def
      getElementById_def deactivate_all_def has_class_def classList_remove_def classList_add_def
      querySelector_onclick_def navigateToTab_def routeMap_def constructor_def
      str_includes_def startsWith_def sublist_code prefix_code Let_def)

text \<open>
  C2, amended. On a page whose router was built by the constructor, handling a
  \<open>popstate\<close> event pushes no history entry when the path resolves to the dashboard, or
  when the document has no element with the id of the resolved view (\<open>showTab\<close> throws
  before it reaches the router). In the remaining case, the registered path of
  \<open>banks\<close>, \<open>transactions\<close> or \<open>advisor\<close> with its panel in the document, \<open>showTab\<close> calls
  \<open>navigateToTab\<close>, and \<open>history.pushState\<close> is called once, with that same path.
\<close>

theorem popstate_pushed:
  assumes "router pg = Some (constructor p0)"
  shows "pushed (snd (popstate path pg)) =
     (if handleRoute_tabName (constructor p0) path \<noteq> ''dashboard''
         \<and> getElementById (elements pg) (handleRoute_tabName (constructor p0) path) \<noteq> None
      then pushed pg @ [path] else pushed pg)"
proof (cases "getElementById (elements pg) (handleRoute_tabName (constructor p0) path)")
  case None
  with assms show ?thesis
    by (simp add: popstate_def handleRoute_def showTab_None)
next
  case (Some i)
  show ?thesis
  proof (cases "handleRoute_tabName (constructor p0) path = ''dashboard''")
    case True
    with assms Some show ?thesis
      by (simp add: popstate_def handleRoute_def showTab_def Let_def)
  next
    case False
    with assms Some navigateToTab_resolved [OF False] show ?thesis
      by (simp add: popstate_def handleRoute_def showTab_def Let_def)
  qed
qed

theorem popstate_pushed_witness:
  "router example_page = Some (constructor ''/'')
   \<and> pushed (snd (popstate ''/banks'' example_page)) = pushed example_page @ [''/banks'']
   \<and> pushed (snd (popstate ''/'' example_page)) = pushed example_page
   \<and> pushed (snd (popstate ''/advisor'' example_page)) = pushed example_page"
proof -
  have r: "router example_page = Some (constructor ''/'')"
    by (simp add: example_page_def)
  have t: "handleRoute_tabName (constructor ''/'') ''/banks'' = ''banks''"
    "handleRoute_tabName (constructor ''/'') ''/'' = ''dashboard''"
    "handleRoute_tabName (constructor ''/'') ''/advisor'' = ''advisor''"
    by (simp_all add: handleRoute_tabName_def constructor_def str_includes_def startsWith_def
        sublist_code prefix_code)
  have g: "getElementById (elements example_page) ''banks'' = Some 3"
    "getElementById (elements example_page) ''advisor'' = None"
    by (simp_all add: example_page_def getElementById_def)
  from r popstate_pushed [OF r, of "''/banks''"] popstate_pushed [OF r, of "''/''"]
    popstate_pushed [OF r, of "''/advisor''"] t g
  show ?thesis by simp
qed

section \<open>The rate table\<close>

lemma truthy_Some: "truthy v \<Longrightarrow> Some (the v) = v"
  by (cases v) auto

lemma truthy_not_NaN: "truthy v \<Longrightarrow> \<not> isNaN (the v)"
  by (cases v rule: truthy.cases) auto

text \<open>
  C1, as stated, at a response that lacks three of the expected codes: it is not
  treated as a failure. The entry of \<open>CAD\<close> is overwritten and the other entries stay, so
  the table is neither left as it was nor replaced as a whole.
\<close>

theorem loadExchangeRates_missing_codes_counterexample:
  "map_of [(''CAD'', Num 1.4)] ''EUR'' = None
   \<and> loadExchangeRates (Json (Some [(''CAD'', Num 1.4)])) customRates
       = [(''USD'', Num 1), (''CAD'', Num 1.4), (''EUR'', Num 0.85), (''UAH'', Num 41), (''RUB'', Num 83)]
   \<and> loadExchangeRates (Json (Some [(''CAD'', Num 1.4)])) customRates \<noteq> customRates"
  by (simp add: loadExchangeRates_def customRates_def)

text \<open>
  C1, amended. When the fetch fails before the update (the request is rejected, the
  status is not ok, the body is not JSON, or it has no truthy \<open>rates\<close>),
  \<open>loadExchangeRates\<close> leaves the table exactly as it was. On a response with rates it
  sets the entry of \<open>USD\<close> to 1 and overwrites each of \<open>CAD\<close>, \<open>EUR\<close>, \<open>UAH\<close>, \<open>RUB\<close> for
  which the response has a truthy value; every other entry keeps its old value. A
  response that lacks some of the codes is a partial update, not a failure.
\<close>

theorem loadExchangeRates_merges:
  "loadExchangeRates Rejected cr = cr
   \<and> loadExchangeRates Not_ok cr = cr
   \<and> loadExchangeRates Not_json cr = cr
   \<and> loadExchangeRates (Json None) cr = cr
   \<and> map_of (loadExchangeRates (Json (Some rs)) cr) c =
       (if c = ''USD'' then Some (Num 1)
        else if c \<in> set [''CAD'', ''EUR'', ''UAH'', ''RUB''] \<and> truthy (map_of rs c) then map_of rs c
        else map_of cr c)"
  by (simp add: loadExchangeRates_def Let_def update_conv' truthy_Some)

subsection \<open>What the operations keep\<close>

lemma list_all_update:
  assumes "list_all P al" "P (k, v)"
  shows "list_all P (AList.update k v al)"
  using assms by (induction al) auto

lemma numbers_update:
  assumes "rates_are_numbers cr" "\<not> isNaN v"
  shows "rates_are_numbers (AList.update k v cr)"
  using assms unfolding rates_are_numbers_def by (simp add: list_all_update)

lemma numbers_loadExchangeRates:
  assumes "rates_are_numbers cr"
  shows "rates_are_numbers (loadExchangeRates resp cr)"
proof (cases resp)
  case (Json body)
  show ?thesis
  proof (cases body)
    case None
    with Json assms show ?thesis by (simp add: loadExchangeRates_def)
  next
    case (Some rs)
    with Json assms show ?thesis
      by (simp add: loadExchangeRates_def Let_def numbers_update truthy_not_NaN)
  qed
qed (use assms in \<open>simp_all add: loadExchangeRates_def\<close>)

lemma numbers_updateCustomRate:
  assumes "rates_are_numbers cr"
  shows "rates_are_numbers (updateCustomRate f t x cr)"
  using assms by (simp add: updateCustomRate_def numbers_update)

lemma usd_loadExchangeRates:
  assumes "usd_is_one cr"
  shows "usd_is_one (loadExchangeRates resp cr)"
proof (cases resp)
  case (Json body)
  with assms show ?thesis
    by (cases body) (simp_all add: loadExchangeRates_def Let_def usd_is_one_def update_conv')
qed (use assms in \<open>simp_all add: loadExchangeRates_def\<close>)

lemma usd_updateCustomRate:
  "map_of (updateCustomRate f t x cr) ''USD'' = map_of cr ''USD''"
  by (simp add: updateCustomRate_def update_conv')

text \<open>
  C7, as stated: the initial table satisfies the invariant, and \<open>updateCustomRate\<close>
  breaks it with a negative rate and with a zero rate, \<open>loadExchangeRates\<close> with a
  negative rate in the response.
\<close>

theorem rates_positive_counterexample:
  "spec_rates_invariant customRates
   \<and> \<not> spec_rates_invariant (updateCustomRate ''CAD'' ''USD'' (Num (- 2)) customRates)
   \<and> \<not> spec_rates_invariant (updateCustomRate ''USD'' ''EUR'' (Num 0) customRates)
   \<and> \<not> spec_rates_invariant (loadExchangeRates (Json (Some [(''CAD'', Num (- 1))])) customRates)"
  by (simp add: spec_rates_invariant_def customRates_def updateCustomRate_def loadExchangeRates_def)

text \<open>
  C7, amended. The initial table, \<open>loadExchangeRates\<close> and \<open>updateCustomRate\<close> keep this
  invariant: the rate of \<open>USD\<close> is exactly 1, and no stored rate is \<open>NaN\<close>. A stored rate
  need not be positive.
\<close>

theorem usd_rate_invariant:
  "usd_is_one customRates \<and> rates_are_numbers customRates
   \<and> (usd_is_one cr \<and> rates_are_numbers cr
        \<longrightarrow> usd_is_one (loadExchangeRates resp cr) \<and> rates_are_numbers (loadExchangeRates resp cr))
   \<and> (usd_is_one cr \<and> rates_are_numbers cr
        \<longrightarrow> usd_is_one (updateCustomRate f t x cr) \<and> rates_are_numbers (updateCustomRate f t x cr))"
proof -
  have init: "usd_is_one customRates \<and> rates_are_numbers customRates"
    by (simp add: usd_is_one_def rates_are_numbers_def customRates_def)
  have upd: "usd_is_one (updateCustomRate f t x cr)" if "usd_is_one cr"
    using that by (simp add: usd_is_one_def usd_updateCustomRate)
  from init upd usd_loadExchangeRates numbers_loadExchangeRates numbers_updateCustomRate
  show ?thesis by blast
qed

theorem usd_rate_invariant_witness:
  "usd_is_one customRates \<and> rates_are_numbers customRates
   \<and> usd_is_one (loadExchangeRates (Json (Some [(''USD'', Num 7), (''CAD'', Num 1.4)])) customRates)
   \<and> rates_are_numbers (loadExchangeRates (Json (Some [(''USD'', Num 7), (''CAD'', Num 1.4)])) customRates)
   \<and> usd_is_one (updateCustomRate ''CAD'' ''USD'' (Num (- 2)) customRates)
   \<and> rates_are_numbers (updateCustomRate ''CAD'' ''USD'' (Num (- 2)) customRates)"
  using usd_rate_invariant [of customRates "Json (Some [(''USD'', Num 7), (''CAD'', Num 1.4)])"
      "''CAD''" "''USD''" "Num (- 2)"]
  by blast

section \<open>The converter\<close>

lemma decimal_small: "n < 10 \<Longrightarrow> decimal n = [digit_char n]"
  by (simp add: decimal.simps)

lemma decimal_step: "10 \<le> n \<Longrightarrow> decimal n = decimal (n div 10) @ [digit_char (n mod 10)]"
  by (subst decimal.simps) simp

lemmas toFixed_eval = decimal_small decimal_step digit_char_def

text \<open>
  C5, as stated, at the amounts 0 and -5 in the main script: the amount is rejected
  before the two currencies are compared, and the text is the request for a valid amount.
\<close>

theorem convert_same_currency_counterexample:
  "convertCurrencyAmount customRates (Converter (Num 0) ''USD'' ''USD'') = Some Enter_valid_amount
   \<and> convertCurrencyAmount customRates (Converter (Num (- 5)) ''EUR'' ''EUR'') = Some Enter_valid_amount"
  by simp

text \<open>
  C5, amended. For every currency \<open>X\<close> and every strictly positive amount, the converter
  of the main script converting from \<open>X\<close> to \<open>X\<close> writes the amount itself, as
  \<open>toFixed(2)\<close> prints it after the symbol of \<open>X\<close>, whatever the rate table holds; a zero
  or negative amount gets the request for a valid amount instead. The converter of
  \<open>static/plaid_app.js\<close> writes the amount itself after a dollar sign for every amount,
  zero and negative ones included.
\<close>

theorem convert_same_currency:
  "(0 < a \<longrightarrow> convertCurrencyAmount cr (Converter (Num a) X X)
       = Some (Money (getCurrencySymbol X) (toFixed 2 (Num a))))
   \<and> (a \<le> 0 \<longrightarrow> convertCurrencyAmount cr (Converter (Num a) X X) = Some Enter_valid_amount)
   \<and> convertCurrencyAmount_plaid cr (Converter (Num a) X X) = Some (Money Dollar (toFixed 2 (Num a)))"
  by (simp del: toFixed.simps)

theorem convert_same_currency_witness:
  "(0::real) < 12.5
   \<and> convertCurrencyAmount [] (Converter (Num 12.5) ''CAD'' ''CAD'') = Some (Money Dollar ''12.50'')
   \<and> (- 3::real) \<le> 0
   \<and> convertCurrencyAmount [] (Converter (Num (- 3)) ''CAD'' ''CAD'') = Some Enter_valid_amount
   \<and> convertCurrencyAmount_plaid [] (Converter (Num (- 3)) ''CAD'' ''CAD'') = Some (Money Dollar ''-3.00'')"
  using convert_same_currency [of "12.5" "[]" "''CAD''"] convert_same_currency [of "- 3" "[]" "''CAD''"]
  by (simp add: toFixed_eval getCurrencySymbol_def)

subsection \<open>Arithmetic in doubles\<close>


















text \<open>
  Rounding never yields \<open>NaN\<close>; the text for a conversion error is written when an
  infinite rate meets a zero, as with two rates that are both infinite.
\<close>

lemma double_not_NaN: "\<not> isNaN (double x)"
  by (simp add: double_def Let_def)

lemma conversion_error_reachable:
  "convertCurrencyAmount [(''CAD'', Infinity), (''EUR'', Infinity)] (Converter (Num 1) ''CAD'' ''EUR'')
     = Some Conversion_error"
  by simp





text \<open>
  C10, as stated, at a currency with no entry in the table and the amounts 0, -5 and
  \<open>NaN\<close> in the main script: the text is the request for a valid amount, not the
  amount.
\<close>

theorem same_currency_rejected_amount_counterexample:
  "map_of [(''USD'', Num 1)] ''GBP'' = None
   \<and> convertCurrencyAmount [(''USD'', Num 1)] (Converter (Num 0) ''GBP'' ''GBP'') = Some Enter_valid_amount
   \<and> convertCurrencyAmount [(''USD'', Num 1)] (Converter (Num (- 5)) ''GBP'' ''GBP'') = Some Enter_valid_amount
   \<and> convertCurrencyAmount [(''USD'', Num 1)] (Converter NaN ''GBP'' ''GBP'') = Some Enter_valid_amount
   \<and> Some Enter_valid_amount \<noteq> Some (Money (getCurrencySymbol ''GBP'') (toFixed 2 (Num 0)))"
  by simp

text \<open>
  C10, amended. The comparison of the two currencies comes before any lookup in the
  rate table. So for every table and every currency \<open>X\<close>, with or without an entry, with
  a zero or a negative entry: \<open>convertCurrencyAmount\<close> of the main script from \<open>X\<close> to
  \<open>X\<close> writes the amount it was given when the amount passes the check that comes
  first (it is not \<open>NaN\<close> and greater than zero) and the request for a valid amount
  otherwise, never the text for a rate that is not found; \<open>convertCurrencyAmount\<close> of
  \<open>static/plaid_app.js\<close> writes the amount it was given for every amount; and
  \<open>updateCurrencyPair\<close> of the main script on a pair of equal currencies writes
  \<open>1.0000\<close>, not \<open>N/A\<close>.
\<close>

theorem same_currency_short_circuit:
  "convertCurrencyAmount cr (Converter amount X X) =
     (if isNaN amount \<or> le_zero amount then Some Enter_valid_amount
      else Some (Money (getCurrencySymbol X) (toFixed 2 amount)))
   \<and> convertCurrencyAmount cr (Converter amount X X) \<noteq> Some Rate_not_found
   \<and> convertCurrencyAmount_plaid cr (Converter amount X X) =
       Some (Money Dollar (toFixed 2 (if truthy (Some amount) then amount else Num 0)))
   \<and> convertCurrencyAmount_plaid cr (Converter amount X X) \<noteq> Some Rate_not_found
   \<and> updateCurrencyPair cr (Pair X X) = Some (Plain ''1.0000'')"
  by (simp del: toFixed.simps)

theorem same_currency_short_circuit_witness:
  "map_of [(''USD'', Num 1), (''XXX'', Num 0)] ''GBP'' = None
   \<and> convertCurrencyAmount [(''USD'', Num 1), (''XXX'', Num 0)] (Converter (Num 5) ''GBP'' ''GBP'')
       = Some (Money Dollar ''5.00'')
   \<and> convertCurrencyAmount [(''USD'', Num 1), (''XXX'', Num 0)] (Converter (Num 5) ''XXX'' ''XXX'')
       = Some (Money Dollar ''5.00'')
   \<and> convertCurrencyAmount [(''USD'', Num 1), (''XXX'', Num 0)] (Converter (Num 0) ''GBP'' ''GBP'')
       = Some Enter_valid_amount
   \<and> convertCurrencyAmount [(''USD'', Num 1), (''XXX'', Num 0)] (Converter NaN ''GBP'' ''GBP'')
       = Some Enter_valid_amount
   \<and> convertCurrencyAmount_plaid [(''USD'', Num 1), (''XXX'', Num 0)] (Converter (Num 5) ''GBP'' ''GBP'')
       = Some (Money Dollar ''5.00'')
   \<and> convertCurrencyAmount_plaid [(''USD'', Num 1), (''XXX'', Num 0)] (Converter (Num (- 5)) ''GBP'' ''GBP'')
       = Some (Money Dollar ''-5.00'')
   \<and> convertCurrencyAmount_plaid [(''USD'', Num 1), (''XXX'', Num 0)] (Converter NaN ''GBP'' ''GBP'')
       = Some (Money Dollar ''0.00'')
   \<and> updateCurrencyPair [(''USD'', Num 1), (''XXX'', Num 0)] (Pair ''GBP'' ''GBP'') = Some (Plain ''1.0000'')"
  using same_currency_short_circuit [of "[(''USD'', Num 1), (''XXX'', Num 0)]" "Num 5" "''GBP''"]
    same_currency_short_circuit [of "[(''USD'', Num 1), (''XXX'', Num 0)]" "Num 5" "''XXX''"]
    same_currency_short_circuit [of "[(''USD'', Num 1), (''XXX'', Num 0)]" "Num 0" "''GBP''"]
    same_currency_short_circuit [of "[(''USD'', Num 1), (''XXX'', Num 0)]" "NaN" "''GBP''"]
    same_currency_short_circuit [of "[(''USD'', Num 1), (''XXX'', Num 0)]" "Num (- 5)" "''GBP''"]
  by (simp add: toFixed_eval getCurrencySymbol_def)

end
